theory Spec2Isabelle
  imports Complex_Main "HOL-Library.Sublist"
begin

section \<open>Python values, exceptions and console output\<close>

text \<open>
  The script \<^verbatim>\<open>getMultiPrimerSet.py\<close> is dynamically typed: the dictionary returned by
  \<^verbatim>\<open>primer3.bindings.designPrimers\<close> holds integers, floats and strings under string keys,
  and the candidate dictionaries built from it carry these values unchanged. A value is
  therefore one of three shapes. Floats are idealised as reals (no rounding).
\<close>

datatype pval = PInt int | PFloat real | PStr string

text \<open>
  Exceptions are values. \<open>NameError\<close> carries the unbound name, \<open>KeyError\<close> the missing
  key, \<open>ServiceError\<close> stands for whatever the FASTA reader or primer3 raises.
\<close>

datatype error =
    NameError string
  | KeyError string
  | TypeError
  | ValueError
  | ServiceError string

text \<open>
  What the script prints: \<open>Print s\<close> is \<^verbatim>\<open>print(s)\<close>, and \<open>PrintError e\<close> is
  \<^verbatim>\<open>print("An error occurred:", e)\<close> of line 119.
\<close>

datatype event = Print string | PrintError error

subsection \<open>\<^verbatim>\<open>str\<close> of an integer\<close>

definition digit :: "nat \<Rightarrow> char" where
  "digit d = ''0123456789'' ! d"

function str_nat :: "nat \<Rightarrow> string" where
  "str_nat n = (if n < 10 then [digit n] else str_nat (n div 10) @ [digit (n mod 10)])"
  by pat_completeness auto
termination
  by (relation "measure id") auto

declare str_nat.simps [simp del]

definition str_int :: "int \<Rightarrow> string" where
  "str_int i = (if i < 0 then CHR ''-'' # str_nat (nat (- i)) else str_nat (nat i))"

section \<open>Candidate generation: \<^verbatim>\<open>design_primers\<close> (lines 33 to 121)\<close>

text \<open>
  The dictionary \<^verbatim>\<open>primers\<close> returned by primer3 is a partial map from keys to values.
  Subscripting a missing key raises \<open>KeyError\<close>.
\<close>

type_synonym pdict = "string \<rightharpoonup> pval"

definition getitem :: "pdict \<Rightarrow> string \<Rightarrow> error + pval" where
  "getitem d k = (case d k of None \<Rightarrow> Inl (KeyError k) | Some v \<Rightarrow> Inr v)"

text \<open>
  Lines 56 to 92 read the FASTA record, cut the target sequence, build the parameter
  dictionaries and call \<^verbatim>\<open>primer3.bindings.designPrimers\<close>. All of it happens before the
  \<^verbatim>\<open>try\<close> of line 93. Within one run every parameter but the region is fixed, so the
  external service is a function of the region bounds that either raises or returns a
  dictionary.
\<close>

type_synonym service = "int \<Rightarrow> int \<Rightarrow> error + pdict"

text \<open>A candidate pair is the dictionary literal of lines 110 to 117.\<close>

record candidate =
  Forward_Primer :: pval
  Reverse_Primer :: pval
  Forward_tm :: pval
  Reverse_tm :: pval
  Product_Size :: pval
  name :: string

definition key_left_seq :: "nat \<Rightarrow> string" where
  "key_left_seq i = ''PRIMER_LEFT_'' @ str_nat i @ ''_SEQUENCE''"

definition key_right_seq :: "nat \<Rightarrow> string" where
  "key_right_seq i = ''PRIMER_RIGHT_'' @ str_nat i @ ''_SEQUENCE''"

definition key_right_tm :: "nat \<Rightarrow> string" where
  "key_right_tm i = ''PRIMER_RIGHT_'' @ str_nat i @ ''_TM''"

definition key_left_tm :: "nat \<Rightarrow> string" where
  "key_left_tm i = ''PRIMER_LEFT_'' @ str_nat i @ ''_TM''"

definition key_product_size :: "nat \<Rightarrow> string" where
  "key_product_size i = ''PRIMER_PAIR_'' @ str_nat i @ ''_PRODUCT_SIZE''"

text \<open>
  One pass of the loop body, lines 102 to 117, for index \<open>i\<close>: five subscripts in the
  source's order, then the dictionary that is appended.
\<close>

definition pair_at :: "pdict \<Rightarrow> string \<Rightarrow> nat \<Rightarrow> error + candidate" where
  "pair_at primers nm i =
    (case getitem primers (key_left_seq i) of Inl e \<Rightarrow> Inl e | Inr forward_seq \<Rightarrow>
    (case getitem primers (key_right_seq i) of Inl e \<Rightarrow> Inl e | Inr reverse_seq \<Rightarrow>
    (case getitem primers (key_right_tm i) of Inl e \<Rightarrow> Inl e | Inr forward_tm \<Rightarrow>
    (case getitem primers (key_left_tm i) of Inl e \<Rightarrow> Inl e | Inr reverse_tm \<Rightarrow>
    (case getitem primers (key_product_size i) of Inl e \<Rightarrow> Inl e | Inr product_size \<Rightarrow>
       Inr \<lparr> Forward_Primer = forward_seq, Reverse_Primer = reverse_seq,
             Forward_tm = forward_tm, Reverse_tm = reverse_tm,
             Product_Size = product_size, name = nm \<rparr>)))))"

text \<open>
  The \<^verbatim>\<open>for\<close> loop of line 101 over the indices still to visit, with \<^verbatim>\<open>primer_pairs\<close>
  as accumulator. An exception leaves the loop with what has been appended so far.
\<close>

fun collect :: "pdict \<Rightarrow> string \<Rightarrow> nat list \<Rightarrow> candidate list \<Rightarrow> candidate list \<times> error option" where
  "collect primers nm [] primer_pairs = (primer_pairs, None)"
| "collect primers nm (i # rest) primer_pairs =
    (case pair_at primers nm i of
       Inl e \<Rightarrow> (primer_pairs, Some e)
     | Inr c \<Rightarrow> collect primers nm rest (primer_pairs @ [c]))"

text \<open>\<^verbatim>\<open>primers['PRIMER_PAIR_NUM_RETURNED'] == 0\<close>: true for the integer and the float zero.\<close>

fun is_zero :: "pval \<Rightarrow> bool" where
  "is_zero (PInt n) = (n = 0)"
| "is_zero (PFloat r) = (r = 0)"
| "is_zero (PStr s) = False"

definition picking :: "string \<Rightarrow> event" where
  "picking nm = Print (''Picking initial primers for '' @ nm)"

text \<open>
  The \<^verbatim>\<open>try\<close> block, lines 93 to 121, on the dictionary the service returned. The result
  is what is printed and the list returned. \<^verbatim>\<open>range\<close> of a value that is not an integer
  raises \<open>TypeError\<close> after \<^verbatim>\<open>primer_pairs = []\<close>, so the handler returns the empty list;
  a negative count gives an empty range.
\<close>

definition try_block :: "pdict \<Rightarrow> string \<Rightarrow> event list \<times> candidate list" where
  "try_block primers nm =
    (case primers ''PRIMER_PAIR_NUM_RETURNED'' of
       None \<Rightarrow> ([Print ''No primers found!''], [])
     | Some v \<Rightarrow>
        if is_zero v then ([Print ''No primers found!''], [])
        else (case v of
                PInt n \<Rightarrow>
                  (case collect primers nm [0..<nat n] [] of
                     (primer_pairs, None) \<Rightarrow> ([], primer_pairs)
                   | (primer_pairs, Some e) \<Rightarrow> ([PrintError e], primer_pairs))
              | _ \<Rightarrow> ([PrintError TypeError], [])))"

text \<open>
  \<^verbatim>\<open>design_primers\<close>: the progress line, the service call outside the \<^verbatim>\<open>try\<close>, then the
  \<^verbatim>\<open>try\<close> block. The result pairs the console output with either the exception that
  leaves the function or the returned list.
\<close>

definition design_primers ::
  "service \<Rightarrow> int \<Rightarrow> int \<Rightarrow> string \<Rightarrow> event list \<times> (error + candidate list)" where
  "design_primers designPrimers region_start region_end nm =
    (case designPrimers region_start region_end of
       Inl e \<Rightarrow> ([picking nm], Inl e)
     | Inr primers \<Rightarrow>
        (case try_block primers nm of
           (evs, primer_pairs) \<Rightarrow> (picking nm # evs, Inr primer_pairs)))"

section \<open>The region loop (lines 131 to 180)\<close>

text \<open>
  The module-level state the loop reads and writes, together with what has been printed.
  Each design_primers call prints its progress line first, so the console output records
  for which regions candidate generation was entered.
\<close>

record loop_state =
  seen_names :: "string set"
  modified_names :: "string \<rightharpoonup> string"
  primers_all :: "candidate list list"
  out :: "event list"

definition initial_state :: loop_state where
  "initial_state = \<lparr> seen_names = {}, modified_names = Map.empty, primers_all = [], out = [] \<rparr>"

definition target_name :: "int \<Rightarrow> int \<Rightarrow> string" where
  "target_name start end = ''Target '' @ str_int start @ ''-'' @ str_int end"

text \<open>
  Line 145 prints two arguments, which \<^verbatim>\<open>print\<close> separates by a blank:
  \<^verbatim>\<open>"Region " + str(start) + ", "\<close> and \<^verbatim>\<open>str(end) + " larger than product_size_range!"\<close>.
\<close>

definition too_large_message :: "int \<Rightarrow> int \<Rightarrow> event" where
  "too_large_message start end =
     Print (''Region '' @ str_int start @ '', '' @ '' '' @ str_int end
            @ '' larger than product_size_range!'')"

text \<open>
  Lines 148 to 160. The module never imports \<^verbatim>\<open>random\<close> (lines 2 to 12), so evaluating
  \<^verbatim>\<open>random.randint(1, 100)\<close> on line 154 raises \<open>NameError\<close>; the assignments after it
  on lines 154 to 158 are not reached on that path. The write \<^verbatim>\<open>df.at[index, 'name']\<close>
  of line 157 changes a column no later statement reads and is left out.
\<close>

definition dedup_name :: "string \<Rightarrow> loop_state \<Rightarrow> error + loop_state" where
  "dedup_name nm st =
    (if nm \<in> seen_names st then
       (case modified_names st nm of
          Some modified_name \<Rightarrow> Inr (st\<lparr>seen_names := insert modified_name (seen_names st)\<rparr>)
        | None \<Rightarrow> Inl (NameError ''random''))
     else Inr (st\<lparr>seen_names := insert nm (seen_names st)\<rparr>))"

text \<open>
  Lines 162 to 180: the call (with the unmodified \<^verbatim>\<open>name\<close>), then the append or the
  message. An exception leaving design_primers leaves the loop and the script.
\<close>

definition generate :: "service \<Rightarrow> int \<Rightarrow> int \<Rightarrow> string \<Rightarrow> loop_state \<Rightarrow> error option \<times> loop_state" where
  "generate designPrimers start end nm st =
    (case design_primers designPrimers start end nm of
       (evs, Inl e) \<Rightarrow> (Some e, st\<lparr>out := out st @ evs\<rparr>)
     | (evs, Inr primer_tmp) \<Rightarrow>
         if length primer_tmp > 0
         then (None, st\<lparr>primers_all := primers_all st @ [primer_tmp], out := out st @ evs\<rparr>)
         else (None, st\<lparr>out := out st @ evs @ [Print (''No primer found for: '' @ nm)]\<rparr>))"

text \<open>
  The loop over the rows of the region table, each row its \<^verbatim>\<open>start\<close> and \<^verbatim>\<open>end\<close>. The
  result is the uncaught exception, if any, and the state in which the loop was left.
  \<^verbatim>\<open>break\<close> on line 146 leaves the loop normally: the script goes on with line 185.
\<close>

fun region_loop :: "service \<Rightarrow> int \<Rightarrow> (int \<times> int) list \<Rightarrow> loop_state \<Rightarrow> error option \<times> loop_state" where
  "region_loop designPrimers product_size_max [] st = (None, st)"
| "region_loop designPrimers product_size_max ((start, end) # rows) st =
    (if end - start > product_size_max
     then (None, st\<lparr>out := out st @ [too_large_message start end]\<rparr>)
     else (case dedup_name (target_name start end) st of
             Inl e \<Rightarrow> (Some e, st)
           | Inr st1 \<Rightarrow>
              (case generate designPrimers start end (target_name start end) st1 of
                 (Some e, st2) \<Rightarrow> (Some e, st2)
               | (None, st2) \<Rightarrow> region_loop designPrimers product_size_max rows st2)))"

section \<open>Pool, names and enumeration (lines 188 to 235)\<close>

definition flat_list :: "candidate list list \<Rightarrow> candidate list" where
  "flat_list pa = concat pa"

definition names :: "candidate list \<Rightarrow> string set" where
  "names pool = set (map name pool)"

text \<open>
  \<^verbatim>\<open>itertools.combinations(xs, k)\<close>: the \<open>k\<close>-element selections of positions of \<open>xs\<close>,
  each in pool order, emitted in lexicographic order of the positions.
\<close>

fun combinations :: "nat \<Rightarrow> 'a list \<Rightarrow> 'a list list" where
  "combinations 0 xs = [[]]"
| "combinations (Suc k) [] = []"
| "combinations (Suc k) (x # xs) = map ((#) x) (combinations k xs) @ combinations (Suc k) xs"

text \<open>\<^verbatim>\<open>sys.maxsize\<close> of a 64-bit build.\<close>

definition sys_maxsize :: int where
  "sys_maxsize = 2 ^ 63 - 1"

text \<open>
  \<^verbatim>\<open>itertools.islice(it, n)\<close> refuses a stop that is negative or above \<^verbatim>\<open>sys.maxsize\<close>
  with \<open>ValueError\<close> and otherwise draws at most \<open>n\<close> items from the iterator.
\<close>

definition islice :: "'a list \<Rightarrow> int \<Rightarrow> error + 'a list" where
  "islice xs n =
     (if n < 0 \<or> n > sys_maxsize then Inl ValueError else Inr (take (nat n) xs))"

definition covers :: "string set \<Rightarrow> candidate list \<Rightarrow> bool" where
  "covers ns c = (set (map name c) = ns)"

text \<open>\<^verbatim>\<open>' '.join(ss)\<close>.\<close>

fun join_blank :: "string list \<Rightarrow> string" where
  "join_blank [] = []"
| "join_blank [s] = s"
| "join_blank (s # t # ss) = s @ '' '' @ join_blank (t # ss)"

text \<open>
  The outcome of lines 223 to 235: the program has exited with a status and a message,
  an exception has been raised, or the drawn raw subsets have been filtered and the
  valid combinations are ready for the executor. The greeting of line 227 lists the
  names in the iteration order of a Python set, which the language leaves open, so it is
  not part of the outcome; with at most one name the diagnostic of line 224 has no such
  freedom. The model ends with line 235; what follows the enumeration is the fold below.
\<close>

datatype selection =
    Exit int "event list"
  | Raised error
  | Dispatch (examined: "candidate list list") (valid_combinations: "candidate list list")

definition select_head :: "candidate list \<Rightarrow> int \<Rightarrow> selection" where
  "select_head pool eval_limit =
    (if card (names pool) \<le> 1
     then Exit 1 [Print (''not enough targets! '' @ join_blank (remdups (map name pool)))]
     else (case islice (combinations (card (names pool)) pool) (4 * eval_limit) of
             Inl e \<Rightarrow> Raised e
           | Inr combos \<Rightarrow>
              (case islice (filter (covers (names pool)) combos) eval_limit of
                 Inl e \<Rightarrow> Raised e
               | Inr valid \<Rightarrow> Dispatch combos valid)))"

section \<open>Scoring: \<^verbatim>\<open>calculate_score\<close> (lines 198 to 220)\<close>

text \<open>
  Score fields are Python floats; the initial best score is \<^verbatim>\<open>float('inf')\<close> in every
  field. Finite floats are idealised as reals; comparison with \<open>NaN\<close> is false.
\<close>

datatype pyfloat = NaN | NInf | Fin real | PInf

fun gt :: "pyfloat \<Rightarrow> pyfloat \<Rightarrow> bool" where
  "gt NaN y = False"
| "gt x NaN = False"
| "gt PInf PInf = False"
| "gt PInf y = True"
| "gt x PInf = False"
| "gt NInf y = False"
| "gt (Fin a) NInf = True"
| "gt (Fin a) (Fin b) = (a > b)"

text \<open>\<^verbatim>\<open>x * 0.9\<close>.\<close>

fun times09 :: "pyfloat \<Rightarrow> pyfloat" where
  "times09 (Fin a) = Fin (a * (9 / 10))"
| "times09 x = x"

record score =
  size_s :: pyfloat
  tmp :: pyfloat
  mean :: pyfloat
  range_s :: pyfloat

fun num_of :: "pval \<Rightarrow> real option" where
  "num_of (PInt n) = Some (of_int n)"
| "num_of (PFloat r) = Some r"
| "num_of (PStr s) = None"

fun py_max :: "real list \<Rightarrow> real" where
  "py_max [] = 0"
| "py_max (x # xs) = fold max xs x"

fun py_min :: "real list \<Rightarrow> real" where
  "py_min [] = 0"
| "py_min (x # xs) = fold min xs x"

text \<open>
  \<^verbatim>\<open>max(vs) - min(vs)\<close>: \<open>ValueError\<close> on an empty list, \<open>TypeError\<close> as soon as a
  string is among the values (in the comparison when numbers are mixed in, in the
  subtraction otherwise). \<open>py_max\<close> and \<open>py_min\<close> are only used on non-empty lists.
\<close>

definition spread :: "pval list \<Rightarrow> error + real" where
  "spread vs =
    (if vs = [] then Inl ValueError
     else (case those (map num_of vs) of
             None \<Rightarrow> Inl TypeError
           | Some rs \<Rightarrow> Inr (py_max rs - py_min rs)))"

text \<open>
  \<^verbatim>\<open>primer3.calcHeterodimer(a, b, temp_c = t).dg\<close> is external: a function of the two
  sequences and the temperature that raises or returns the free energy.
\<close>

type_synonym thermo = "string \<Rightarrow> string \<Rightarrow> real \<Rightarrow> error + real"

text \<open>Lines 206 and 208: the pairs of \<^verbatim>\<open>itertools.combinations(comb, 2)\<close> and their sequences.\<close>

definition primer_pairs :: "candidate list \<Rightarrow> (candidate \<times> candidate) list" where
  "primer_pairs comb = map (\<lambda>c. (c ! 0, c ! 1)) (combinations 2 comb)"

definition primer_pairs_sequences :: "candidate list \<Rightarrow> (pval \<times> pval) list" where
  "primer_pairs_sequences comb =
     map (\<lambda>(p1, p2). (Forward_Primer p1, Reverse_Primer p2)) (primer_pairs comb)"

text \<open>One call of line 212; primer3 takes strings only.\<close>

fun dimer :: "thermo \<Rightarrow> real \<Rightarrow> pval \<times> pval \<Rightarrow> error + real" where
  "dimer calcHeterodimer t (PStr a, PStr b) = calcHeterodimer a b t"
| "dimer calcHeterodimer t p = Inl TypeError"

text \<open>The loop of lines 210 to 212 with its accumulator.\<close>

fun heterodimer_scores :: "thermo \<Rightarrow> real \<Rightarrow> (pval \<times> pval) list \<Rightarrow> real list \<Rightarrow> error + real list" where
  "heterodimer_scores calcHeterodimer t [] acc = Inr acc"
| "heterodimer_scores calcHeterodimer t (p # ps) acc =
    (case dimer calcHeterodimer t p of
       Inl e \<Rightarrow> Inl e
     | Inr dg \<Rightarrow> heterodimer_scores calcHeterodimer t ps (acc @ [dg]))"

text \<open>
  The body of \<^verbatim>\<open>calculate_score\<close>. The pool \<^verbatim>\<open>primers_all\<close> is the module-level list.
  The temperature is the parameter \<^verbatim>\<open>target_tm\<close>; the \<^verbatim>\<open>def\<close> line gives it the
  module-level name \<^verbatim>\<open>target_tm\<close> as default, a name the script binds nowhere, so the
  model takes the temperature as an argument. With no pair, \<^verbatim>\<open>np.min\<close> of the empty list
  raises \<open>ValueError\<close>.
\<close>

definition calculate_score ::
  "candidate list \<Rightarrow> thermo \<Rightarrow> real \<Rightarrow> candidate list \<Rightarrow> error + (score \<times> candidate list)" where
  "calculate_score pool calcHeterodimer target_tm comb =
    (case spread (map Product_Size pool) of Inl e \<Rightarrow> Inl e | Inr product_size_range \<Rightarrow>
    (case spread (map Forward_tm pool @ map Reverse_tm pool) of Inl e \<Rightarrow> Inl e | Inr tm_range \<Rightarrow>
    (case heterodimer_scores calcHeterodimer target_tm (primer_pairs_sequences comb) [] of
       Inl e \<Rightarrow> Inl e
     | Inr hs \<Rightarrow>
        if hs = [] then Inl ValueError
        else Inr (\<lparr> size_s = Fin product_size_range,
                     tmp = Fin tm_range,
                     mean = Fin (sum_list hs / real (length hs)),
                     range_s = Fin (\<bar>py_min hs\<bar> - \<bar>py_max hs\<bar>) \<rparr>, comb))))"

section \<open>The fold over completed scores (lines 237 to 254)\<close>

definition initial_best :: score where
  "initial_best = \<lparr> size_s = PInf, tmp = PInf, mean = PInf, range_s = PInf \<rparr>"

text \<open>
  Lines 248 to 254. In Python \<^verbatim>\<open>and\<close> binds tighter than \<^verbatim>\<open>or\<close>, so the condition of
  line 252 reads \<^verbatim>\<open>best_score['tmp'] > 4 or (score['tmp'] > 4 and best_score['tmp'] > score['tmp'])\<close>.
\<close>

definition fold_step ::
  "score \<times> candidate list option \<Rightarrow> score \<times> candidate list \<Rightarrow> score \<times> candidate list option" where
  "fold_step best sc =
    (case (best, sc) of ((best_score, best_comb), (score, comb)) \<Rightarrow>
      if gt (mean best_score) (mean score) then
        (if gt (times09 (range_s best_score)) (range_s score) then (score, Some comb)
         else if gt (tmp best_score) (Fin 4)
                 \<or> (gt (tmp score) (Fin 4) \<and> gt (tmp best_score) (tmp score))
              then (score, Some comb)
              else (best_score, best_comb))
      else (best_score, best_comb))"

definition best_fold :: "(score \<times> candidate list) list \<Rightarrow> score \<times> candidate list option" where
  "best_fold completed = foldl fold_step (initial_best, None) completed"

section \<open>The script from the region loop to the gate (lines 131 to 235)\<close>

text \<open>
  Line 198 is \<^verbatim>\<open>def calculate_score(comb, target_tm=target_tm):\<close>. Python evaluates the
  default expression when the \<^verbatim>\<open>def\<close> statement runs. The module binds \<^verbatim>\<open>args.target_tm\<close>
  but no name \<^verbatim>\<open>target_tm\<close>, so the statement raises \<open>NameError\<close>.
\<close>

definition def_calculate_score :: "error + unit" where
  "def_calculate_score = Inl (NameError ''target_tm'')"

text \<open>
  The statements of the script in their order: the region loop, the flattening of the
  pool (lines 185 to 195, which print nothing), the \<^verbatim>\<open>def\<close> of line 198, and the gate with
  the enumeration. The result is the console output and either the uncaught exception
  or the outcome of lines 223 to 235.
\<close>

definition script ::
  "service \<Rightarrow> int \<Rightarrow> int \<Rightarrow> (int \<times> int) list \<Rightarrow> event list \<times> (error + selection)" where
  "script designPrimers product_size_max eval_limit rows =
    (case region_loop designPrimers product_size_max rows initial_state of
       (Some e, st) \<Rightarrow> (out st, Inl e)
     | (None, st) \<Rightarrow>
        (case def_calculate_score of
           Inl e \<Rightarrow> (out st, Inl e)
         | Inr u \<Rightarrow> (out st, Inr (select_head (flat_list (primers_all st)) eval_limit))))"

section \<open>Reference notions for the statements\<close>

text \<open>
  The position pairs \<open>(i, j)\<close> with \<open>i < j < n\<close>, first by \<open>i\<close> and then by \<open>j\<close>: the
  unordered pairs of distinct members of a combination of \<open>n\<close> candidates.
\<close>

definition index_pairs :: "nat \<Rightarrow> (nat \<times> nat) list" where
  "index_pairs n = concat (map (\<lambda>i. map (\<lambda>j. (i, j)) [Suc i..<n]) [0..<n])"

text \<open>Lexicographic order on lists of pool positions.\<close>

definition lex_less :: "nat list \<Rightarrow> nat list \<Rightarrow> bool" where
  "lex_less a b = ((a, b) \<in> lexord {(i, j). i < j})"

section \<open>Sample inputs\<close>

text \<open>A primer3 answer with one pair, and services that always give it or always raise.\<close>

definition example_response :: pdict where
  "example_response = map_of
     [(''PRIMER_PAIR_NUM_RETURNED'', PInt 1),
      (''PRIMER_LEFT_0_SEQUENCE'', PStr ''ACGTACGTAC''),
      (''PRIMER_RIGHT_0_SEQUENCE'', PStr ''TTGACCGTAA''),
      (''PRIMER_LEFT_0_TM'', PFloat 64),
      (''PRIMER_RIGHT_0_TM'', PFloat 66),
      (''PRIMER_PAIR_0_PRODUCT_SIZE'', PInt 450)]"

definition example_service :: service where
  "example_service start end = Inr example_response"

definition failing_service :: service where
  "failing_service start end = Inl (ServiceError ''primer3'')"

definition example_candidate :: "string \<Rightarrow> candidate" where
  "example_candidate nm =
     \<lparr> Forward_Primer = PStr ''ACGTACGTAC'', Reverse_Primer = PStr ''TTGACCGTAA'',
       Forward_tm = PFloat 66, Reverse_tm = PFloat 64,
       Product_Size = PInt 450, name = nm \<rparr>"

text \<open>A pool of four candidates for two regions, and a constant free energy.\<close>

definition cand :: "string \<Rightarrow> string \<Rightarrow> real \<Rightarrow> int \<Rightarrow> candidate" where
  "cand nm fwd tm sz =
     \<lparr> Forward_Primer = PStr fwd, Reverse_Primer = PStr ''TTGACCGTAA'',
       Forward_tm = PFloat tm, Reverse_tm = PFloat 64,
       Product_Size = PInt sz, name = nm \<rparr>"

definition example_pool :: "candidate list" where
  "example_pool = [cand ''A'' ''AAAA'' 66 450, cand ''A'' ''CCCC'' 63 500,
                   cand ''B'' ''GGGG'' 65 420, cand ''B'' ''TTTT'' 67 610]"

definition example_thermo :: thermo where
  "example_thermo a b t = Inr (if a = ''AAAA'' then - 3 else - 5)"

definition example_best :: score where
  "example_best = \<lparr> size_s = Fin 190, tmp = Fin 5, mean = Fin (- 2), range_s = Fin 1 \<rparr>"

definition example_score :: score where
  "example_score = \<lparr> size_s = Fin 190, tmp = Fin 5, mean = Fin (- 3), range_s = Fin 1 \<rparr>"


text \<open>
  Three candidates whose sequences all differ, and a free energy that depends on the
  forward sequence, on the reverse sequence and on the temperature.
\<close>

definition pair_cand :: "string \<Rightarrow> string \<Rightarrow> string \<Rightarrow> candidate" where
  "pair_cand nm fwd rv =
     \<lparr> Forward_Primer = PStr fwd, Reverse_Primer = PStr rv,
       Forward_tm = PFloat 66, Reverse_tm = PFloat 64,
       Product_Size = PInt 450, name = nm \<rparr>"

definition pair_pool :: "candidate list" where
  "pair_pool = [pair_cand ''A'' ''AC'' ''TTT'', pair_cand ''B'' ''ACG'' ''T'',
                pair_cand ''C'' ''A'' ''TTTT'']"

definition sensitive_thermo :: thermo where
  "sensitive_thermo a b t =
     (if t = 65 then Inr (- real (length a) - 2 * real (length b))
      else Inl (ServiceError ''temperature''))"

section \<open>Auxiliary facts\<close>

subsection \<open>Evaluating the sample inputs\<close>

lemma str_nat_0: "str_nat 0 = ''0''"
  by (simp add: str_nat.simps digit_def)

lemma target_name_100_150: "target_name 100 150 = ''Target 100-150''"
  by (simp add: target_name_def str_int_def str_nat.simps digit_def)

lemma too_large_message_1000_1900:
  "too_large_message 1000 1900 = Print ''Region 1000,  1900 larger than product_size_range!''"
  by (simp add: too_large_message_def str_int_def str_nat.simps digit_def)

lemma example_try_block: "try_block example_response nm = ([], [example_candidate nm])"
  by (simp add: try_block_def example_response_def pair_at_def getitem_def key_left_seq_def
      key_right_seq_def key_left_tm_def key_right_tm_def key_product_size_def str_nat_0
      example_candidate_def)

lemma example_design_primers:
  "design_primers example_service s e nm = ([picking nm], Inr [example_candidate nm])"
  by (simp add: design_primers_def example_service_def example_try_block)

lemma failing_design_primers:
  "design_primers failing_service s e nm = ([picking nm], Inl (ServiceError ''primer3''))"
  by (simp add: design_primers_def failing_service_def)

lemma names_example_pool: "names example_pool = {''A'', ''B''}"
  by (auto simp: names_def example_pool_def cand_def)

lemma card_names_example_pool: "card (names example_pool) = 2"
  by (simp add: names_example_pool)

lemma example_select_head:
  "select_head example_pool 1 =
     Dispatch [[cand ''A'' ''AAAA'' 66 450, cand ''A'' ''CCCC'' 63 500],
               [cand ''A'' ''AAAA'' 66 450, cand ''B'' ''GGGG'' 65 420],
               [cand ''A'' ''AAAA'' 66 450, cand ''B'' ''TTTT'' 67 610],
               [cand ''A'' ''CCCC'' 63 500, cand ''B'' ''GGGG'' 65 420]]
              [[cand ''A'' ''AAAA'' 66 450, cand ''B'' ''GGGG'' 65 420]]"
proof -
  have c: "combinations (Suc (Suc 0)) example_pool =
     [[cand ''A'' ''AAAA'' 66 450, cand ''A'' ''CCCC'' 63 500],
      [cand ''A'' ''AAAA'' 66 450, cand ''B'' ''GGGG'' 65 420],
      [cand ''A'' ''AAAA'' 66 450, cand ''B'' ''TTTT'' 67 610],
      [cand ''A'' ''CCCC'' 63 500, cand ''B'' ''GGGG'' 65 420],
      [cand ''A'' ''CCCC'' 63 500, cand ''B'' ''TTTT'' 67 610],
      [cand ''B'' ''GGGG'' 65 420, cand ''B'' ''TTTT'' 67 610]]"
    by (simp add: example_pool_def)
  have f: "covers {''A'', ''B''} [cand ''A'' ''AAAA'' 66 450, cand ''B'' ''GGGG'' 65 420]"
     "\<not> covers {''A'', ''B''} [cand ''A'' ''AAAA'' 66 450, cand ''A'' ''CCCC'' 63 500]"
     "covers {''A'', ''B''} [cand ''A'' ''AAAA'' 66 450, cand ''B'' ''TTTT'' 67 610]"
     "covers {''A'', ''B''} [cand ''A'' ''CCCC'' 63 500, cand ''B'' ''GGGG'' 65 420]"
    by (auto simp: covers_def cand_def)
  show ?thesis
    by (simp add: select_head_def card_names_example_pool names_example_pool c islice_def
        sys_maxsize_def f)
qed

lemma example_score_two:
  "calculate_score example_pool example_thermo 65
      [cand ''A'' ''AAAA'' 66 450, cand ''B'' ''GGGG'' 65 420]
    = Inr (\<lparr> size_s = Fin 190, tmp = Fin 4, mean = Fin (- 3), range_s = Fin 0 \<rparr>,
           [cand ''A'' ''AAAA'' 66 450, cand ''B'' ''GGGG'' 65 420])"
  by (simp add: calculate_score_def example_pool_def cand_def spread_def
      primer_pairs_sequences_def primer_pairs_def numeral_2_eq_2 example_thermo_def)

lemma example_score_four:
  "calculate_score example_pool example_thermo 65 example_pool
    = Inr (\<lparr> size_s = Fin 190, tmp = Fin 4, mean = Fin (- 4), range_s = Fin 2 \<rparr>, example_pool)"
  by (simp add: calculate_score_def example_pool_def cand_def spread_def
      primer_pairs_sequences_def primer_pairs_def numeral_2_eq_2 example_thermo_def)

subsection \<open>The loop of design_primers\<close>

lemma collect_result:
  "collect primers nm idxs acc = (ps, eo) \<Longrightarrow>
     \<exists>cs. ps = acc @ cs \<and> length cs \<le> length idxs
          \<and> (\<forall>j<length cs. pair_at primers nm (idxs ! j) = Inr (cs ! j))"
proof (induction idxs arbitrary: acc)
  case Nil
  then show ?case by simp
next
  case (Cons i rest)
  show ?case
  proof (cases "pair_at primers nm i")
    case (Inl e)
    with Cons.prems show ?thesis by simp
  next
    case (Inr c)
    with Cons.prems have "collect primers nm rest (acc @ [c]) = (ps, eo)" by simp
    from Cons.IH [OF this] obtain cs where
      cs: "ps = (acc @ [c]) @ cs" "length cs \<le> length rest"
          "\<forall>j<length cs. pair_at primers nm (rest ! j) = Inr (cs ! j)" by blast
    have "\<forall>j<length (c # cs). pair_at primers nm ((i # rest) ! j) = Inr ((c # cs) ! j)"
      using cs(3) Inr by (auto simp: nth_Cons split: nat.splits)
    with cs(1,2) show ?thesis by (intro exI [of _ "c # cs"]) simp
  qed
qed

lemma try_block_pairs:
  assumes "try_block primers nm = (evs, ps)" and "i < length ps"
  shows "pair_at primers nm i = Inr (ps ! i)"
proof -
  from assms obtain n eo where c: "collect primers nm [0..<nat n] [] = (ps, eo)"
    by (auto simp: try_block_def split: option.splits if_splits pval.splits prod.splits)
  from collect_result [OF c] have len: "length ps \<le> length [0..<nat n]"
    and at: "\<forall>j<length ps. pair_at primers nm ([0..<nat n] ! j) = Inr (ps ! j)" by auto
  from len assms(2) have "[0..<nat n] ! i = i" by simp
  with at assms(2) show ?thesis by fastforce
qed

lemma pair_at_fields:
  "pair_at primers nm i = Inr c \<Longrightarrow>
     primers (key_left_seq i) = Some (Forward_Primer c) \<and>
     primers (key_right_seq i) = Some (Reverse_Primer c) \<and>
     primers (key_right_tm i) = Some (Forward_tm c) \<and>
     primers (key_left_tm i) = Some (Reverse_tm c) \<and>
     primers (key_product_size i) = Some (Product_Size c) \<and>
     name c = nm"
  by (auto simp: pair_at_def getitem_def split: option.splits sum.splits)

lemma design_primers_names:
  assumes "design_primers svc s e nm = (evs, Inr ps)"
  shows "\<forall>c\<in>set ps. name c = nm"
proof
  fix c assume "c \<in> set ps"
  then obtain i where i: "i < length ps" "c = ps ! i" by (auto simp: in_set_conv_nth)
  from assms obtain primers evs' where "try_block primers nm = (evs', ps)"
    by (auto simp: design_primers_def split: sum.splits prod.splits)
  from try_block_pairs [OF this i(1)] pair_at_fields i(2) show "name c = nm" by blast
qed

lemma design_primers_prints_first:
  "\<exists>evs r. design_primers svc s e nm = (picking nm # evs, r)"
  by (auto simp: design_primers_def split: sum.splits prod.splits)

subsection \<open>Combinations\<close>

lemma combinations_length: "c \<in> set (combinations k xs) \<Longrightarrow> length c = k"
  by (induction k xs arbitrary: c rule: combinations.induct) auto

lemma combinations_subseq: "c \<in> set (combinations k xs) \<Longrightarrow> subseq c xs"
  by (induction k xs arbitrary: c rule: combinations.induct) auto

lemma combinations_map: "combinations k (map f xs) = map (map f) (combinations k xs)"
  by (induction k xs rule: combinations.induct) auto

lemma combinations_positions:
  "combinations k xs = map (map ((!) xs)) (combinations k [0..<length xs])"
proof -
  have "combinations k (map ((!) xs) [0..<length xs])
          = map (map ((!) xs)) (combinations k [0..<length xs])"
    by (rule combinations_map)
  then show ?thesis by (simp add: map_nth)
qed

lemma combinations_hd:
  "c \<in> set (combinations (Suc k) xs) \<Longrightarrow> \<exists>y ys. c = y # ys \<and> y \<in> set xs"
  by (induction xs arbitrary: c) fastforce+

lemma combinations_lex:
  "sorted_wrt (<) xs \<Longrightarrow> sorted_wrt lex_less (combinations k xs)"
proof (induction k xs rule: combinations.induct)
  case (1 xs)
  then show ?case by simp
next
  case (2 k)
  then show ?case by simp
next
  case (3 k x xs)
  from "3.prems" have sx: "sorted_wrt (<) xs" and lt: "\<forall>y\<in>set xs. x < y" by auto
  have a: "sorted_wrt lex_less (map ((#) x) (combinations k xs))"
    using "3.IH"(1) [OF sx] by (simp add: sorted_wrt_map lex_less_def)
  have b: "sorted_wrt lex_less (combinations (Suc k) xs)"
    using "3.IH"(2) [OF sx] .
  have c: "\<forall>u\<in>set (map ((#) x) (combinations k xs)).
             \<forall>v\<in>set (combinations (Suc k) xs). lex_less u v"
  proof (intro ballI)
    fix u v
    assume "u \<in> set (map ((#) x) (combinations k xs))" "v \<in> set (combinations (Suc k) xs)"
    then obtain u' y ys where "u = x # u'" "v = y # ys" "y \<in> set xs"
      using combinations_hd by fastforce
    with lt show "lex_less u v" by (simp add: lex_less_def)
  qed
  from a b c show ?case by (simp add: sorted_wrt_append)
qed

lemma combinations_one: "combinations (Suc 0) xs = map (\<lambda>x. [x]) xs"
  by (induction xs) auto

lemma select_head_dispatch:
  assumes "select_head pool ev = Dispatch raw valid"
  shows "raw = take (nat (4 * ev)) (combinations (card (names pool)) pool)"
    and "valid = take (nat ev) (filter (covers (names pool)) raw)"
    and "0 \<le> ev"
  using assms
  by (auto simp: select_head_def islice_def split: if_splits sum.splits)

lemma select_head_dispatches:
  assumes "1 < card (names pool)" and "0 \<le> ev" and "4 * ev \<le> sys_maxsize"
  shows "\<exists>raw valid. select_head pool ev = Dispatch raw valid"
  using assms by (simp add: select_head_def islice_def)

subsection \<open>Pairs of a combination\<close>

lemma index_pairs_Suc:
  "index_pairs (Suc n) =
     map (\<lambda>j. (0, j)) [1..<Suc n] @ map (\<lambda>(i, j). (Suc i, Suc j)) (index_pairs n)"
proof -
  have upt0: "[0..<Suc n] = 0 # map Suc [0..<n]"
    by (simp add: upt_conv_Cons map_Suc_upt del: upt_Suc)
  have shift: "\<And>i. [Suc (Suc i)..<Suc n] = map Suc [Suc i..<n]"
    by (simp add: map_Suc_upt)
  show ?thesis
    unfolding index_pairs_def upt0
    by (simp add: map_concat comp_def shift del: upt_Suc)
qed

lemma primer_pairs_index:
  "primer_pairs comb = map (\<lambda>(i, j). (comb ! i, comb ! j)) (index_pairs (length comb))"
proof (induction comb)
  case Nil
  then show ?case by (simp add: primer_pairs_def index_pairs_def numeral_2_eq_2)
next
  case (Cons x xs)
  have two: "combinations 2 (x # xs) = map ((#) x) (combinations (Suc 0) xs) @ combinations 2 xs"
    by (simp add: numeral_2_eq_2)
  have first: "map (\<lambda>c. (c ! 0, c ! 1)) (map ((#) x) (combinations (Suc 0) xs))
                = map (\<lambda>j. (x, (x # xs) ! j)) [1..<Suc (length xs)]"
  proof -
    have "map (\<lambda>c. (c ! 0, c ! 1)) (map ((#) x) (combinations (Suc 0) xs)) = map (\<lambda>y. (x, y)) xs"
      by (simp add: combinations_one comp_def)
    also have "\<dots> = map (\<lambda>j. (x, (x # xs) ! j)) (map Suc [0..<length xs])"
    proof -
      have "map (\<lambda>y. (x, y)) (map ((!) xs) [0..<length xs])
              = map (\<lambda>j. (x, xs ! j)) [0..<length xs]"
        by (simp add: comp_def del: map_nth)
      then show ?thesis by (simp add: comp_def map_nth)
    qed
    finally show ?thesis by (simp add: map_Suc_upt del: upt_Suc)
  qed
  have "primer_pairs (x # xs)
          = map (\<lambda>c. (c ! 0, c ! 1)) (map ((#) x) (combinations (Suc 0) xs)) @ primer_pairs xs"
    unfolding primer_pairs_def two by simp
  also have "\<dots> = map (\<lambda>j. (x, (x # xs) ! j)) [1..<Suc (length xs)]
                   @ map (\<lambda>(i, j). (xs ! i, xs ! j)) (index_pairs (length xs))"
    unfolding first Cons.IH ..
  also have "\<dots> = map (\<lambda>(i, j). ((x # xs) ! i, (x # xs) ! j)) (index_pairs (Suc (length xs)))"
    by (simp add: index_pairs_Suc comp_def case_prod_unfold del: upt_Suc)
  finally show ?case by simp
qed

lemma set_index_pairs: "set (index_pairs n) = {(i, j). i < j \<and> j < n}"
  by (force simp: index_pairs_def)

lemma distinct_index_pairs: "distinct (index_pairs n)"
proof (induction n)
  case 0
  then show ?case by (simp add: index_pairs_def)
next
  case (Suc n)
  then show ?case
    by (auto simp: index_pairs_Suc distinct_map inj_on_def simp del: upt_Suc)
qed

lemma heterodimer_scores_result:
  "heterodimer_scores calc t ps acc = Inr hs \<Longrightarrow>
     \<exists>ds. hs = acc @ ds \<and> map (dimer calc t) ps = map Inr ds"
proof (induction ps arbitrary: acc)
  case Nil
  then show ?case by simp
next
  case (Cons p ps)
  then show ?case by (fastforce split: sum.splits)
qed

lemma dimer_Inr:
  "dimer calc t (x, y) = Inr d \<Longrightarrow> \<exists>a b. x = PStr a \<and> y = PStr b \<and> calc a b t = Inr d"
  by (cases x; cases y) auto

lemma primer_pairs_sequences_index:
  "primer_pairs_sequences comb =
     map (\<lambda>(i, j). (Forward_Primer (comb ! i), Reverse_Primer (comb ! j)))
         (index_pairs (length comb))"
  by (simp add: primer_pairs_sequences_def primer_pairs_index comp_def case_prod_unfold)

subsection \<open>Maximum, minimum and spread\<close>

lemma fold_max_Max: "fold max xs (x::real) = Max (insert x (set xs))"
proof (induction xs arbitrary: x)
  case Nil
  then show ?case by simp
next
  case (Cons y ys)
  have "fold max (y # ys) x = Max (insert (max y x) (set ys))" by (simp add: Cons.IH)
  also have "\<dots> = Max (insert x (insert y (set ys)))"
    by (cases "set ys = {}") (auto simp: max.commute max.left_commute max.assoc)
  finally show ?case by simp
qed

lemma fold_min_Min: "fold min xs (x::real) = Min (insert x (set xs))"
proof (induction xs arbitrary: x)
  case Nil
  then show ?case by simp
next
  case (Cons y ys)
  have "fold min (y # ys) x = Min (insert (min y x) (set ys))" by (simp add: Cons.IH)
  also have "\<dots> = Min (insert x (insert y (set ys)))"
    by (cases "set ys = {}") (auto simp: min.commute min.left_commute min.assoc)
  finally show ?case by simp
qed

lemma py_max_Max: "xs \<noteq> [] \<Longrightarrow> py_max xs = Max (set xs)"
  by (cases xs) (simp_all add: fold_max_Max)

lemma py_min_Min: "xs \<noteq> [] \<Longrightarrow> py_min xs = Min (set xs)"
  by (cases xs) (simp_all add: fold_min_Min)

lemma those_length: "those xs = Some ys \<Longrightarrow> length ys = length xs"
  by (induction xs arbitrary: ys) (auto split: option.splits)

lemma spread_Inr:
  assumes "spread vs = Inr r"
  shows "\<exists>rs. those (map num_of vs) = Some rs \<and> rs \<noteq> [] \<and> r = Max (set rs) - Min (set rs)"
proof -
  from assms obtain rs where rs: "vs \<noteq> []" "those (map num_of vs) = Some rs"
      "r = py_max rs - py_min rs"
    by (auto simp: spread_def split: if_splits option.splits)
  from those_length [OF rs(2)] rs(1) have "rs \<noteq> []" by auto
  with rs show ?thesis by (simp add: py_max_Max py_min_Min)
qed

lemma calculate_score_Inr:
  assumes "calculate_score pool calc t comb = Inr (sc, r)"
  shows "\<exists>psr tr hs. spread (map Product_Size pool) = Inr psr
           \<and> spread (map Forward_tm pool @ map Reverse_tm pool) = Inr tr
           \<and> heterodimer_scores calc t (primer_pairs_sequences comb) [] = Inr hs
           \<and> hs \<noteq> []
           \<and> sc = \<lparr> size_s = Fin psr, tmp = Fin tr,
                    mean = Fin (sum_list hs / real (length hs)),
                    range_s = Fin (\<bar>py_min hs\<bar> - \<bar>py_max hs\<bar>) \<rparr>
           \<and> r = comb"
  using assms by (auto simp: calculate_score_def split: sum.splits if_splits)

subsection \<open>The region loop\<close>

lemma region_loop_single:
  assumes "e - s \<le> pmax" and "region_loop svc pmax [(s, e)] initial_state = (None, st)"
  shows "picking (target_name s e) \<in> set (out st) \<and> card (names (flat_list (primers_all st))) \<le> 1"
proof -
  obtain evs r where d: "design_primers svc s e (target_name s e) = (picking (target_name s e) # evs, r)"
    using design_primers_prints_first by blast
  show ?thesis
  proof (cases r)
    case (Inl err)
    with assms d show ?thesis
      by (simp add: initial_state_def dedup_name_def generate_def)
  next
    case (Inr ps)
    with d design_primers_names have nm: "\<forall>c\<in>set ps. name c = target_name s e" by blast
    then have "name ` set ps \<subseteq> {target_name s e}" by auto
    then have "card (name ` set ps) \<le> card {target_name s e}"
      by (intro card_mono) auto
    then have c: "card (name ` set ps) \<le> 1" by simp
    from assms d Inr c show ?thesis
      by (auto simp: initial_state_def dedup_name_def generate_def names_def flat_list_def
          split: if_splits)
  qed
qed

lemma gate_exit:
  "card (names pool) \<le> 1 \<Longrightarrow>
     select_head pool ev
       = Exit 1 [Print (''not enough targets! '' @ join_blank (remdups (map name pool)))]"
  by (simp add: select_head_def)

lemma script_never_reaches_gate:
  "\<exists>e. snd (script svc pmax ev rows) = Inl e"
  by (simp add: script_def def_calculate_score_def split: prod.splits option.splits)

lemma gt_above_four: "gt c (Fin 4) \<Longrightarrow> gt b c \<Longrightarrow> gt b (Fin 4)"
  by (cases b; cases c) auto

section \<open>The fold over completed scores\<close>

text \<open>
  Claim C1, as the code has it. When the incoming score's mean is strictly below the
  current best's mean and its range is not below 0.9 times the current best's range,
  the candidate replaces the best exactly when the current best's tmp exceeds 4, or the
  candidate's tmp exceeds 4 and is below the current best's tmp; otherwise the best is
  kept. (The grouping is that of Python's operator precedence on line 252.)
\<close>

theorem fold_step_third_rule:
  assumes "gt (mean best_score) (mean sc)"
    and "\<not> gt (times09 (range_s best_score)) (range_s sc)"
  shows "fold_step (best_score, best_comb) (sc, comb) =
          (if gt (tmp best_score) (Fin 4) \<or> (gt (tmp sc) (Fin 4) \<and> gt (tmp best_score) (tmp sc))
           then (sc, Some comb) else (best_score, best_comb))"
  using assms by (simp add: fold_step_def)

theorem fold_step_third_rule_witness:
  "gt (mean example_best) (mean example_score)
   \<and> \<not> gt (times09 (range_s example_best)) (range_s example_score)
   \<and> fold_step (example_best, None) (example_score, example_pool)
       = (example_score, Some example_pool)"
proof -
  have h1: "gt (mean example_best) (mean example_score)"
    by (simp add: example_best_def example_score_def)
  have h2: "\<not> gt (times09 (range_s example_best)) (range_s example_score)"
    by (simp add: example_best_def example_score_def)
  have "gt (tmp example_best) (Fin 4)" by (simp add: example_best_def)
  with fold_step_third_rule [OF h1 h2, of None example_pool] h1 h2 show ?thesis by simp
qed

text \<open>
  With both tmp values at 5, as they are within one run, the grouping
  ``(best tmp > 4 or candidate tmp > 4) and candidate tmp < best tmp'' is false, yet the
  candidate with the lower mean is accepted.
\<close>

theorem fold_step_grouping_counterexample:
  "gt (mean example_best) (mean example_score)
   \<and> \<not> gt (times09 (range_s example_best)) (range_s example_score)
   \<and> \<not> ((gt (tmp example_best) (Fin 4) \<or> gt (tmp example_score) (Fin 4))
          \<and> gt (tmp example_best) (tmp example_score))
   \<and> fold_step (example_best, None) (example_score, example_pool)
       = (example_score, Some example_pool)
   \<and> (example_score, Some example_pool) \<noteq> (example_best, None)"
  by (simp add: example_best_def example_score_def fold_step_def)

section \<open>The region loop\<close>

text \<open>
  Claim C2, as the code has it. If the first region whose span \<open>end - start\<close> exceeds the
  maximum product size is preceded by the rows \<open>pre\<close>, the loop behaves on the whole table
  as it does on \<open>pre\<close> alone and then prints the diagnostic naming the offending region:
  no candidate generation occurs for that region or for any row after it, the
  candidates of the earlier rows stay in the pool, and the loop is left normally.
\<close>

theorem region_loop_stops_at_oversize:
  assumes "\<forall>(s, e) \<in> set pre. e - s \<le> pmax" and "e - s > pmax"
  shows "region_loop svc pmax (pre @ (s, e) # post) st =
          (case region_loop svc pmax pre st of
             (Some err, st') \<Rightarrow> (Some err, st')
           | (None, st') \<Rightarrow> (None, st'\<lparr>out := out st' @ [too_large_message s e]\<rparr>))"
  using assms
proof (induction pre arbitrary: st)
  case Nil
  then show ?case by simp
next
  case (Cons row pre)
  obtain s0 e0 where row: "row = (s0, e0)" by (cases row)
  with Cons.prems have ok: "\<not> e0 - s0 > pmax" and rest: "\<forall>(s, e) \<in> set pre. e - s \<le> pmax"
    by auto
  show ?case
    using Cons.IH [OF rest Cons.prems(2)] ok
    by (simp add: row split: sum.splits prod.splits option.splits)
qed

theorem region_loop_stops_at_oversize_witness:
  "(150::int) - 100 \<le> 800 \<and> (1900::int) - 1000 > 800
   \<and> region_loop example_service 800 ([(100, 150)] @ (1000, 1900) # [(300, 350)]) initial_state
      = (None, \<lparr> seen_names = {''Target 100-150''}, modified_names = Map.empty,
                 primers_all = [[example_candidate ''Target 100-150'']],
                 out = [Print ''Picking initial primers for Target 100-150'',
                        Print ''Region 1000,  1900 larger than product_size_range!''] \<rparr>)"
proof -
  have h1: "\<forall>(s, e) \<in> set [(100, 150)]. e - s \<le> (800::int)" by simp
  have h2: "(1900::int) - 1000 > 800" by simp
  have pre: "region_loop example_service 800 [(100, 150)] initial_state
      = (None, \<lparr> seen_names = {''Target 100-150''}, modified_names = Map.empty,
                 primers_all = [[example_candidate ''Target 100-150'']],
                 out = [Print ''Picking initial primers for Target 100-150''] \<rparr>)"
    by (simp add: initial_state_def dedup_name_def generate_def example_design_primers
        target_name_100_150 picking_def)
  have "region_loop example_service 800 ([(100, 150)] @ (1000, 1900) # [(300, 350)]) initial_state
      = (case region_loop example_service 800 [(100, 150)] initial_state of
           (Some err, st') \<Rightarrow> (Some err, st')
         | (None, st') \<Rightarrow> (None, st'\<lparr>out := out st' @ [too_large_message 1000 1900]\<rparr>))"
    by (rule region_loop_stops_at_oversize [OF h1 h2])
  also have "\<dots> = (None, \<lparr> seen_names = {''Target 100-150''}, modified_names = Map.empty,
                 primers_all = [[example_candidate ''Target 100-150'']],
                 out = [Print ''Picking initial primers for Target 100-150'',
                        Print ''Region 1000,  1900 larger than product_size_range!''] \<rparr>)"
    unfolding pre by (simp add: too_large_message_1000_1900)
  finally have r: "region_loop example_service 800 ([(100, 150)] @ (1000, 1900) # [(300, 350)])
        initial_state
      = (None, \<lparr> seen_names = {''Target 100-150''}, modified_names = Map.empty,
                 primers_all = [[example_candidate ''Target 100-150'']],
                 out = [Print ''Picking initial primers for Target 100-150'',
                        Print ''Region 1000,  1900 larger than product_size_range!''] \<rparr>)" .
  from h2 r show ?thesis by simp
qed

text \<open>
  A table whose second region spans 900 bases with a maximum of 800: candidates for the
  first region have been generated and appended before the diagnostic, and the loop ends
  without an exception, so the script goes on to the selection phase.
\<close>

theorem region_loop_oversize_counterexample:
  "region_loop example_service 800 [(100, 150), (1000, 1900)] initial_state
     = (None, \<lparr> seen_names = {''Target 100-150''}, modified_names = Map.empty,
                primers_all = [[example_candidate ''Target 100-150'']],
                out = [Print ''Picking initial primers for Target 100-150'',
                       Print ''Region 1000,  1900 larger than product_size_range!''] \<rparr>)"
  by (simp add: initial_state_def dedup_name_def generate_def example_design_primers
      target_name_100_150 too_large_message_1000_1900 picking_def)

section \<open>Enumeration\<close>

text \<open>
  Claim C3. Whenever combinations are handed on, the raw subsets examined are the first
  \<open>4 * eval\<close> of the \<open>k\<close>-subsets of the pool, \<open>k\<close> the number of distinct names, taken
  in lexicographic order of pool positions, so at most \<open>4 * eval\<close> of them; and the
  combinations passed to scoring are the first \<open>eval\<close> of those that pass the filter, so
  at most \<open>eval\<close>.
\<close>

theorem enumeration_caps:
  assumes "select_head pool ev = Dispatch raw valid"
  shows "int (length raw) \<le> 4 * ev \<and> int (length valid) \<le> ev
         \<and> raw = map (map ((!) pool))
                   (take (nat (4 * ev)) (combinations (card (names pool)) [0..<length pool]))
         \<and> sorted_wrt lex_less (combinations (card (names pool)) [0..<length pool])
         \<and> valid = take (nat ev) (filter (covers (names pool)) raw)"
proof -
  note d = select_head_dispatch [OF assms]
  from d(1,3) have "int (length raw) \<le> 4 * ev" by simp
  moreover from d(2,3) have "int (length valid) \<le> ev" by simp
  moreover have "raw = map (map ((!) pool))
                   (take (nat (4 * ev)) (combinations (card (names pool)) [0..<length pool]))"
    using d(1) combinations_positions [of "card (names pool)" pool] by (simp add: take_map)
  moreover have "sorted_wrt lex_less (combinations (card (names pool)) [0..<length pool])"
    by (rule combinations_lex) (simp add: sorted_wrt_iff_nth_less)
  ultimately show ?thesis using d(2) by simp
qed

theorem enumeration_caps_witness:
  "select_head example_pool 1 =
     Dispatch [[cand ''A'' ''AAAA'' 66 450, cand ''A'' ''CCCC'' 63 500],
               [cand ''A'' ''AAAA'' 66 450, cand ''B'' ''GGGG'' 65 420],
               [cand ''A'' ''AAAA'' 66 450, cand ''B'' ''TTTT'' 67 610],
               [cand ''A'' ''CCCC'' 63 500, cand ''B'' ''GGGG'' 65 420]]
              [[cand ''A'' ''AAAA'' 66 450, cand ''B'' ''GGGG'' 65 420]]
   \<and> length (combinations 2 example_pool) = 6
   \<and> length (filter (covers (names example_pool)) (combinations 2 example_pool)) = 4"
proof -
  have six: "length (combinations 2 example_pool) = 6"
    by (simp add: example_pool_def numeral_2_eq_2)
  have four: "length (filter (covers (names example_pool)) (combinations 2 example_pool)) = 4"
    by (simp add: example_pool_def numeral_2_eq_2 names_def covers_def cand_def)
  from enumeration_caps [OF example_select_head] example_select_head six four
  show ?thesis by simp
qed

text \<open>
  Claim C8. Every combination that passes the filter has exactly \<open>k\<close> candidates, \<open>k\<close>
  the number of distinct region names in the pool, drawn from the pool in pool order;
  their names are pairwise different and together are exactly the set of names.
\<close>

theorem valid_combination_covers_exactly:
  assumes "select_head pool ev = Dispatch raw valid" and "c \<in> set valid"
  shows "length c = card (names pool) \<and> set (map name c) = names pool
         \<and> distinct (map name c) \<and> subseq c pool"
proof -
  note d = select_head_dispatch [OF assms(1)]
  from assms(2) d(2) have cf: "c \<in> set (filter (covers (names pool)) raw)"
    by (auto dest: in_set_takeD)
  then have cov: "set (map name c) = names pool" by (simp add: covers_def)
  from cf d(1) have cc: "c \<in> set (combinations (card (names pool)) pool)"
    by (auto dest: in_set_takeD)
  then have len: "length c = card (names pool)" by (rule combinations_length)
  have "card (set (map name c)) = length (map name c)" using cov len by simp
  then have "distinct (map name c)" by (rule card_distinct)
  with cov len cc show ?thesis by (simp add: combinations_subseq)
qed

theorem valid_combination_covers_exactly_witness:
  "[cand ''A'' ''AAAA'' 66 450, cand ''B'' ''GGGG'' 65 420]
      \<in> set (valid_combinations (select_head example_pool 1))
   \<and> map name [cand ''A'' ''AAAA'' 66 450, cand ''B'' ''GGGG'' 65 420] = [''A'', ''B'']
   \<and> names example_pool = {''A'', ''B''}"
proof -
  have h: "[cand ''A'' ''AAAA'' 66 450, cand ''B'' ''GGGG'' 65 420]
             \<in> set [[cand ''A'' ''AAAA'' 66 450, cand ''B'' ''GGGG'' 65 420]]" by simp
  from valid_combination_covers_exactly [OF example_select_head h] names_example_pool
  show ?thesis by (simp add: example_select_head cand_def)
qed

section \<open>design_primers\<close>

text \<open>
  Claim C4 fails on the code. The call of the service on line 92 stands before the
  \<^verbatim>\<open>try\<close> of line 93, so an exception it raises is not caught: it leaves
  design_primers after the progress line alone has been printed, and it ends the region
  loop and the run, the regions after it never being processed.
\<close>

theorem service_exception_escapes:
  "design_primers failing_service 100 150 (target_name 100 150)
     = ([Print ''Picking initial primers for Target 100-150''], Inl (ServiceError ''primer3''))
   \<and> region_loop failing_service 800 [(100, 150), (300, 350)] initial_state
     = (Some (ServiceError ''primer3''),
        \<lparr> seen_names = {''Target 100-150''}, modified_names = Map.empty, primers_all = [],
          out = [Print ''Picking initial primers for Target 100-150''] \<rparr>)"
  by (simp add: failing_design_primers initial_state_def dedup_name_def generate_def
      target_name_100_150 picking_def)

text \<open>
  Claim C5. In every candidate that design_primers returns, at position \<open>i\<close> of the
  list, the field Forward tm holds what the service reported under
  \<^verbatim>\<open>PRIMER_RIGHT_i_TM\<close> and the field Reverse tm what it reported under
  \<^verbatim>\<open>PRIMER_LEFT_i_TM\<close>, whereas Forward Primer is the left and Reverse Primer the right
  sequence.
\<close>

theorem design_primers_tm_swapped:
  assumes "designPrimers region_start region_end = Inr primers"
    and "design_primers designPrimers region_start region_end nm = (evs, Inr ps)"
    and "i < length ps"
  shows "primers (key_right_tm i) = Some (Forward_tm (ps ! i)) \<and>
         primers (key_left_tm i) = Some (Reverse_tm (ps ! i)) \<and>
         primers (key_left_seq i) = Some (Forward_Primer (ps ! i)) \<and>
         primers (key_right_seq i) = Some (Reverse_Primer (ps ! i))"
proof -
  from assms(1,2) obtain evs' where "try_block primers nm = (evs', ps)"
    by (auto simp: design_primers_def split: prod.splits)
  from try_block_pairs [OF this assms(3)] pair_at_fields show ?thesis by blast
qed

theorem design_primers_tm_swapped_witness:
  "design_primers example_service 100 150 ''Target 100-150''
     = ([picking ''Target 100-150''], Inr [example_candidate ''Target 100-150''])
   \<and> example_response ''PRIMER_RIGHT_0_TM'' = Some (PFloat 66)
   \<and> Forward_tm (example_candidate ''Target 100-150'') = PFloat 66
   \<and> example_response ''PRIMER_LEFT_0_TM'' = Some (PFloat 64)
   \<and> Reverse_tm (example_candidate ''Target 100-150'') = PFloat 64"
proof -
  have h1: "example_service 100 150 = Inr example_response" by (simp add: example_service_def)
  have h3: "0 < length [example_candidate ''Target 100-150'']" by simp
  from design_primers_tm_swapped [OF h1 example_design_primers h3]
  show ?thesis
    by (simp add: example_design_primers key_right_tm_def key_left_tm_def str_nat_0
        example_candidate_def)
qed

section \<open>Scoring\<close>

text \<open>
  Claim C6. Two combinations scored against the same pool get the same tmp and the same
  size: each is the maximum minus the minimum over the whole pool, of all forward and
  reverse Tm values and of all product sizes, whatever the combination.
\<close>

theorem score_tmp_size_pool_wide:
  assumes "calculate_score pool calc t c1 = Inr (s1, r1)"
    and "calculate_score pool calc t c2 = Inr (s2, r2)"
  shows "\<exists>sizes tms.
           those (map num_of (map Product_Size pool)) = Some sizes \<and> sizes \<noteq> []
         \<and> those (map num_of (map Forward_tm pool @ map Reverse_tm pool)) = Some tms \<and> tms \<noteq> []
         \<and> size_s s1 = Fin (Max (set sizes) - Min (set sizes)) \<and> size_s s2 = size_s s1
         \<and> tmp s1 = Fin (Max (set tms) - Min (set tms)) \<and> tmp s2 = tmp s1"
proof -
  from calculate_score_Inr [OF assms(1)] obtain psr tr where
    a: "spread (map Product_Size pool) = Inr psr"
       "spread (map Forward_tm pool @ map Reverse_tm pool) = Inr tr"
       "size_s s1 = Fin psr" "tmp s1 = Fin tr" by auto
  from calculate_score_Inr [OF assms(2)] a(1,2) have
    b: "size_s s2 = Fin psr" "tmp s2 = Fin tr" by auto
  from spread_Inr [OF a(1)] obtain sizes where
    s: "those (map num_of (map Product_Size pool)) = Some sizes" "sizes \<noteq> []"
       "psr = Max (set sizes) - Min (set sizes)" by blast
  from spread_Inr [OF a(2)] obtain tms where
    t: "those (map num_of (map Forward_tm pool @ map Reverse_tm pool)) = Some tms" "tms \<noteq> []"
       "tr = Max (set tms) - Min (set tms)" by blast
  from a(3,4) b s t show ?thesis by simp
qed

theorem score_tmp_size_pool_wide_witness:
  "calculate_score example_pool example_thermo 65
      [cand ''A'' ''AAAA'' 66 450, cand ''B'' ''GGGG'' 65 420]
    = Inr (\<lparr> size_s = Fin 190, tmp = Fin 4, mean = Fin (- 3), range_s = Fin 0 \<rparr>,
           [cand ''A'' ''AAAA'' 66 450, cand ''B'' ''GGGG'' 65 420])
   \<and> calculate_score example_pool example_thermo 65 example_pool
    = Inr (\<lparr> size_s = Fin 190, tmp = Fin 4, mean = Fin (- 4), range_s = Fin 2 \<rparr>, example_pool)"
  using score_tmp_size_pool_wide [OF example_score_two example_score_four]
    example_score_two example_score_four
  by simp

text \<open>
  Claim C7. For a scored combination there is one free energy for every position pair
  \<open>i < j\<close> of the combination, in the order of \<open>index_pairs\<close>: the value the
  thermodynamics service returns for the forward sequence of the earlier candidate
  against the reverse sequence of the later one at the target temperature. The score's
  mean is the arithmetic mean of these values and its range is the absolute value of
  their minimum minus the absolute value of their maximum.
\<close>

theorem score_mean_range_pairwise:
  assumes "calculate_score pool calc t comb = Inr (sc, r)"
  shows "\<exists>ds. length ds = length (index_pairs (length comb)) \<and> ds \<noteq> []
            \<and> (\<forall>k<length ds. \<exists>a b.
                   Forward_Primer (comb ! fst (index_pairs (length comb) ! k)) = PStr a
                 \<and> Reverse_Primer (comb ! snd (index_pairs (length comb) ! k)) = PStr b
                 \<and> calc a b t = Inr (ds ! k))
            \<and> mean sc = Fin (sum_list ds / real (length ds))
            \<and> range_s sc = Fin (\<bar>Min (set ds)\<bar> - \<bar>Max (set ds)\<bar>)
            \<and> r = comb"
proof -
  let ?ip = "index_pairs (length comb)"
  from calculate_score_Inr [OF assms] obtain hs where
    hs: "heterodimer_scores calc t (primer_pairs_sequences comb) [] = Inr hs" "hs \<noteq> []"
        "mean sc = Fin (sum_list hs / real (length hs))"
        "range_s sc = Fin (\<bar>py_min hs\<bar> - \<bar>py_max hs\<bar>)" "r = comb" by auto
  from heterodimer_scores_result [OF hs(1)]
  have m: "map (dimer calc t) (primer_pairs_sequences comb) = map Inr hs" by simp
  then have "length (primer_pairs_sequences comb) = length hs"
    by (rule map_eq_imp_length_eq)
  then have len: "length hs = length ?ip"
    by (simp add: primer_pairs_sequences_index)
  have each: "\<exists>a b. Forward_Primer (comb ! fst (?ip ! k)) = PStr a
                 \<and> Reverse_Primer (comb ! snd (?ip ! k)) = PStr b
                 \<and> calc a b t = Inr (hs ! k)" if k: "k < length hs" for k
  proof -
    from k len have kp: "k < length (primer_pairs_sequences comb)"
      by (simp add: primer_pairs_sequences_index)
    have "map (dimer calc t) (primer_pairs_sequences comb) ! k = map Inr hs ! k"
      by (simp only: m)
    with k kp have "dimer calc t (primer_pairs_sequences comb ! k) = Inr (hs ! k)" by simp
    moreover from k len have "primer_pairs_sequences comb ! k
        = (Forward_Primer (comb ! fst (?ip ! k)), Reverse_Primer (comb ! snd (?ip ! k)))"
      by (simp add: primer_pairs_sequences_index case_prod_unfold)
    ultimately show ?thesis using dimer_Inr by simp
  qed
  from hs len each show ?thesis
    by (intro exI [of _ hs]) (simp add: py_max_Max py_min_Min)
qed

theorem score_mean_range_pairwise_witness:
  "calculate_score pair_pool sensitive_thermo 65 pair_pool
     = Inr (\<lparr> size_s = Fin 0, tmp = Fin 2, mean = Fin (- 25 / 3), range_s = Fin 7 \<rparr>, pair_pool)
   \<and> index_pairs (length pair_pool) = [(0, 1), (0, 2), (1, 2)]
   \<and> sensitive_thermo ''AC'' ''T'' 65 = Inr (- 4)
   \<and> sensitive_thermo ''AC'' ''TTTT'' 65 = Inr (- 10)
   \<and> sensitive_thermo ''ACG'' ''TTTT'' 65 = Inr (- 11)
   \<and> sensitive_thermo ''ACG'' ''TTT'' 65 = Inr (- 9)
   \<and> sensitive_thermo ''AC'' ''T'' 60 = Inl (ServiceError ''temperature'')"
proof -
  have sc: "calculate_score pair_pool sensitive_thermo 65 pair_pool
     = Inr (\<lparr> size_s = Fin 0, tmp = Fin 2, mean = Fin (- 25 / 3), range_s = Fin 7 \<rparr>, pair_pool)"
    by (simp add: calculate_score_def pair_pool_def pair_cand_def spread_def
        primer_pairs_sequences_def primer_pairs_def numeral_2_eq_2 sensitive_thermo_def)
  have ip: "index_pairs (length pair_pool) = [(0, 1), (0, 2), (1, 2)]"
    by (simp add: index_pairs_def pair_pool_def upt_rec [of _ "numeral _"] upt_rec [of _ "Suc _"])
  from score_mean_range_pairwise [OF sc] sc ip
  show ?thesis by (simp add: sensitive_thermo_def)
qed

section \<open>The gate on the number of names\<close>

text \<open>
  Claim C9 fails on the code. For a table with the single region 100 to 150 the loop
  enters design_primers and appends its candidate; then the \<^verbatim>\<open>def\<close> of line 198 raises
  \<open>NameError\<close>, so the run ends with a traceback, the gate of lines 223 to 225 is not
  reached and the message ``not enough targets!'' is not printed.
\<close>

theorem single_target_run_raises:
  "script example_service 800 10 [(100, 150)]
     = ([Print ''Picking initial primers for Target 100-150''], Inl (NameError ''target_tm''))
   \<and> primers_all (snd (region_loop example_service 800 [(100, 150)] initial_state))
       = [[example_candidate ''Target 100-150'']]
   \<and> select_head [example_candidate ''Target 100-150''] 10
       = Exit 1 [Print ''not enough targets! Target 100-150'']"
  by (simp add: script_def def_calculate_score_def initial_state_def dedup_name_def generate_def
      example_design_primers target_name_100_150 picking_def select_head_def names_def
      example_candidate_def)

section \<open>Colliding region names\<close>

text \<open>
  Claim C10 fails on the code. For a table in which two rows give the same name, the
  second row reaches line 154, where the name \<^verbatim>\<open>random\<close> is unbound: the run ends with
  \<open>NameError\<close> after the first region only, no name having been modified.
\<close>

theorem name_collision_raises:
  "region_loop example_service 800 [(100, 150), (100, 150)] initial_state
     = (Some (NameError ''random''),
        \<lparr> seen_names = {''Target 100-150''}, modified_names = Map.empty,
          primers_all = [[example_candidate ''Target 100-150'']],
          out = [Print ''Picking initial primers for Target 100-150''] \<rparr>)"
  by (simp add: initial_state_def dedup_name_def generate_def example_design_primers
      target_name_100_150 picking_def)

end
